theory Spec2Isabelle
  imports Main
begin

section \<open>The smbfs file operations of the Midnight Commander VFS\<close>

text \<open>
  A shallow embedding of \<^verbatim>\<open>src/vfs/smbfs/file.c\<close>: the six functions
  \<^verbatim>\<open>smbfs_file_open\<close>, \<^verbatim>\<open>smbfs_file_read\<close>, \<^verbatim>\<open>smbfs_file_close\<close>,
  \<^verbatim>\<open>smbfs_file_stat\<close>, \<^verbatim>\<open>smbfs_file_write\<close> and \<^verbatim>\<open>smbfs_file_lseek\<close>.

  The values of the C integer types \<^verbatim>\<open>int\<close>, \<^verbatim>\<open>ssize_t\<close> and \<^verbatim>\<open>off_t\<close> are held
  as integers. The file never narrows a value; its only arithmetic is
  \<^verbatim>\<open>file_handler->pos += rc\<close>, on a 64-bit signed \<^verbatim>\<open>off_t\<close>, and there the
  wrap-around of the machine is written out.
\<close>

subsection \<open>Data\<close>

text \<open>\<^verbatim>\<open>typedef struct { int handle; } smbfs_file_handler_data_t;\<close>\<close>

record smbfs_file_handler_data_t =
  handle :: int

text \<open>
  An address of the C heap. A pointer is an \<open>addr option\<close>, \<open>None\<close> being \<^verbatim>\<open>NULL\<close>.
\<close>

type_synonym addr = nat

text \<open>
  The two members of \<^verbatim>\<open>vfs_file_handler_t\<close> that the file uses: the offset
  \<^verbatim>\<open>pos\<close> and the untyped pointer \<^verbatim>\<open>data\<close>.
\<close>

record vfs_file_handler_t =
  pos :: int
  data :: "addr option"

text \<open>
  \<^verbatim>\<open>off_t\<close> is a signed integer of 64 bits: its values lie between
  \<open>-9223372036854775808\<close> and \<open>9223372036854775807\<close>, and a sum that leaves this
  range comes back reduced modulo \<open>2 ^ 64\<close>, as the compiled program computes it.
\<close>

definition in_off_t :: "int \<Rightarrow> bool" where
  "in_off_t x = (- 9223372036854775808 \<le> x \<and> x \<le> 9223372036854775807)"

definition to_off_t :: "int \<Rightarrow> int" where
  "to_off_t x = (x + 9223372036854775808) mod 18446744073709551616 - 9223372036854775808"

text \<open>A \<^verbatim>\<open>GError\<close>: the domain quark, the numeric code and the message.\<close>

type_synonym GQuark = nat

record GError =
  domain :: GQuark
  code :: int
  message :: string

text \<open>The primitives of libsmbclient, by name.\<close>

datatype primitive = Smbc_open | Smbc_read | Smbc_close | Smbc_fstat | Smbc_write | Smbc_lseek

text \<open>
  The state the functions run in: the ambient \<^verbatim>\<open>errno\<close>, the state of the protocol
  client (whatever libsmbclient keeps: connections, remote files, their cursors), and the
  cells handed out by \<^verbatim>\<open>g_new0\<close>. A cell is addressed by its index; \<open>None\<close> is a
  cell that \<^verbatim>\<open>g_free\<close> has released. The field \<open>invoked\<close> is a log of the
  primitives called so far, oldest first; nothing reads it.
\<close>

record 'p world =
  errno :: int
  smbc_ctx :: 'p
  heap :: "smbfs_file_handler_data_t option list"
  invoked :: "primitive list"

text \<open>
  What the file calls and does not define. A protocol primitive receives its arguments,
  the current \<^verbatim>\<open>errno\<close> and the client state, and gives back its return value, the
  \<^verbatim>\<open>errno\<close> it leaves and the new client state; it has no access to the cells of
  the adapter. \<^verbatim>\<open>smbc_read\<close> and \<^verbatim>\<open>smbc_fstat\<close> also give back the contents of the
  caller's buffer. \<open>gettext\<close> is the macro \<^verbatim>\<open>_\<close>, and \<open>MC_ERROR\<close> the error domain
  of \<^verbatim>\<open>lib/global.h\<close>.
\<close>

record ('v, 'e, 's, 'p) env =
  vfs_path_get_by_index :: "'v \<Rightarrow> int \<Rightarrow> 'e"
  smbfs_make_url :: "'e \<Rightarrow> bool \<Rightarrow> string"
  smbc_open :: "string \<Rightarrow> int \<Rightarrow> nat \<Rightarrow> int \<Rightarrow> 'p \<Rightarrow> int \<times> int \<times> 'p"
  smbc_read :: "int \<Rightarrow> string \<Rightarrow> nat \<Rightarrow> int \<Rightarrow> 'p \<Rightarrow> (int \<times> string) \<times> int \<times> 'p"
  smbc_close :: "int \<Rightarrow> int \<Rightarrow> 'p \<Rightarrow> int \<times> int \<times> 'p"
  smbc_fstat :: "int \<Rightarrow> 's \<Rightarrow> int \<Rightarrow> 'p \<Rightarrow> (int \<times> 's) \<times> int \<times> 'p"
  smbc_write :: "int \<Rightarrow> string \<Rightarrow> nat \<Rightarrow> int \<Rightarrow> 'p \<Rightarrow> int \<times> int \<times> 'p"
  smbc_lseek :: "int \<Rightarrow> int \<Rightarrow> int \<Rightarrow> int \<Rightarrow> 'p \<Rightarrow> int \<times> int \<times> 'p"
  smbfs_strerror :: "int \<Rightarrow> string"
  gettext :: "string \<Rightarrow> string"
  MC_ERROR :: GQuark

text \<open>
  Undefined behaviour of the C program is a value of its own: reading through a pointer
  to no live cell, and releasing such a pointer.
\<close>

datatype fault = Invalid_Pointer | Invalid_Free

text \<open>
  What a call leaves behind: the value returned, the contents of the caller's buffer
  (\<^verbatim>\<open>buffer\<close> of read, \<^verbatim>\<open>buf\<close> of stat; \<open>()\<close> elsewhere), the caller's
  \<^verbatim>\<open>*file_handler\<close>, the error stored through \<^verbatim>\<open>error\<close> (\<open>None\<close> when
  \<^verbatim>\<open>g_set_error\<close> was not called), and the world.
\<close>

record ('a, 'o, 'p) result =
  ret :: 'a
  out :: 'o
  handler :: "vfs_file_handler_t option"
  gerror :: "GError option"
  world :: "'p world"

subsection \<open>Library calls\<close>

text \<open>
  \<^verbatim>\<open>g_set_error (error, domain, code, format, ...)\<close>: the error that the caller
  finds in \<^verbatim>\<open>*error\<close>, which GLib's convention has hold \<^verbatim>\<open>NULL\<close> on entry.
\<close>

definition g_set_error :: "GQuark \<Rightarrow> int \<Rightarrow> string \<Rightarrow> GError option" where
  "g_set_error d c m = Some \<lparr>domain = d, code = c, message = m\<rparr>"

text \<open>
  \<^verbatim>\<open>g_new0 (smbfs_file_handler_data_t, 1)\<close>: a new cell, zero-filled, at an address
  that was no cell before.
\<close>

definition g_new0 :: "'p world \<Rightarrow> addr \<times> 'p world" where
  "g_new0 w = (length (heap w), w\<lparr>heap := heap w @ [Some \<lparr>handle = 0\<rparr>]\<rparr>)"

text \<open>Reading \<^verbatim>\<open>p->handle\<close> needs a live cell at \<open>p\<close>.\<close>

definition deref :: "'p world \<Rightarrow> addr \<Rightarrow> fault + smbfs_file_handler_data_t" where
  "deref w p =
     (if p < length (heap w)
      then (case heap w ! p of None \<Rightarrow> Inl Invalid_Pointer | Some d \<Rightarrow> Inr d)
      else Inl Invalid_Pointer)"

text \<open>The assignment \<^verbatim>\<open>p->handle = h\<close>, on a cell that \<^verbatim>\<open>g_new0\<close> just made.\<close>

definition store_handle :: "addr \<Rightarrow> int \<Rightarrow> 'p world \<Rightarrow> 'p world" where
  "store_handle p h w = w\<lparr>heap := (heap w)[p := Some \<lparr>handle = h\<rparr>]\<rparr>"

text \<open>\<^verbatim>\<open>g_free (p)\<close> releases the live cell at \<open>p\<close>; \<^verbatim>\<open>errno\<close> is as before.\<close>

definition g_free :: "addr \<Rightarrow> 'p world \<Rightarrow> fault + 'p world" where
  "g_free p w =
     (case deref w p of
        Inl f \<Rightarrow> Inl Invalid_Free
      | Inr d \<Rightarrow> Inr (w\<lparr>heap := (heap w)[p := None]\<rparr>))"

text \<open>
  \<^verbatim>\<open>g_free (smb_url)\<close>, of a string that the model holds as a value: there is no
  cell to release, and \<^verbatim>\<open>errno\<close> is as before.
\<close>

definition g_free_string :: "string \<Rightarrow> 'p world \<Rightarrow> 'p world" where
  "g_free_string s w = w"

text \<open>
  A call of a protocol primitive: it sees and sets \<^verbatim>\<open>errno\<close> and the client state,
  and the call is logged.
\<close>

definition protocol_call ::
  "primitive \<Rightarrow> (int \<Rightarrow> 'p \<Rightarrow> 'r \<times> int \<times> 'p) \<Rightarrow> 'p world \<Rightarrow> 'r \<times> 'p world" where
  "protocol_call name f w =
     (case f (errno w) (smbc_ctx w) of
        (r, e, c) \<Rightarrow> (r, w\<lparr>errno := e, smbc_ctx := c, invoked := invoked w @ [name]\<rparr>))"

text \<open>
  The guard \<^verbatim>\<open>file_handler == NULL || file_handler->data == NULL\<close>.
\<close>

definition no_handler_data :: "vfs_file_handler_t option \<Rightarrow> bool" where
  "no_handler_data file_handler =
     (case file_handler of None \<Rightarrow> True | Some fh \<Rightarrow> data fh = None)"

subsection \<open>The six functions\<close>

text \<open>
  \<^verbatim>\<open>smbfs_file_open\<close>. The URL is released between the call of \<^verbatim>\<open>smbc_open\<close> and
  the test of \<^verbatim>\<open>handle\<close>, so \<^verbatim>\<open>errno\<close> is read after \<^verbatim>\<open>g_free\<close>. The function
  takes no file handler: the field \<open>handler\<close> of its result is \<open>None\<close>.
  \<^verbatim>\<open>g_new0\<close> ends the program when memory is exhausted; the model has no such end.
\<close>

definition smbfs_file_open ::
  "('v, 'e, 's, 'p) env \<Rightarrow> 'v \<Rightarrow> int \<Rightarrow> nat \<Rightarrow> 'p world \<Rightarrow> (addr option, unit, 'p) result" where
  "smbfs_file_open env vpath flags mode w =
     (let path_element = vfs_path_get_by_index env vpath (- 1);
          smb_url = smbfs_make_url env path_element True;
          w0 = w\<lparr>errno := 0\<rparr>;
          (handle', w1) = protocol_call Smbc_open (smbc_open env smb_url flags mode) w0;
          w2 = g_free_string smb_url w1
      in if handle' \<ge> 0
         then (let (file_handler_data, w3) = g_new0 w2;
                   w4 = store_handle file_handler_data handle' w3
               in \<lparr>ret = Some file_handler_data, out = (), handler = None,
                    gerror = None, world = w4\<rparr>)
         else \<lparr>ret = None, out = (), handler = None,
                gerror = g_set_error (MC_ERROR env) (errno w2) (smbfs_strerror env (errno w2)),
                world = w2\<rparr>)"

text \<open>\<^verbatim>\<open>smbfs_file_read\<close>.\<close>

definition smbfs_file_read ::
  "('v, 'e, 's, 'p) env \<Rightarrow> vfs_file_handler_t option \<Rightarrow> string \<Rightarrow> nat \<Rightarrow> 'p world
     \<Rightarrow> fault + (int, string, 'p) result" where
  "smbfs_file_read env file_handler buffer count w =
     (if no_handler_data file_handler
      then Inr \<lparr>ret = - 1, out = buffer, handler = file_handler,
                gerror = g_set_error (MC_ERROR env) (- 1)
                  (gettext env ''smbfs: No file handler data present for reading file''),
                world = w\<rparr>
      else
        (let fh = the file_handler;
             file_handler_data = the (data fh);
             w0 = w\<lparr>errno := 0\<rparr>
         in case deref w0 file_handler_data of
              Inl f \<Rightarrow> Inl f
            | Inr d \<Rightarrow>
               (let ((rc, buffer'), w1) =
                      protocol_call Smbc_read (smbc_read env (handle d) buffer count) w0
                in if rc < 0
                   then Inr \<lparr>ret = rc, out = buffer', handler = Some fh,
                             gerror = g_set_error (MC_ERROR env) (errno w1)
                               (smbfs_strerror env (errno w1)),
                             world = w1\<rparr>
                   else Inr \<lparr>ret = rc, out = buffer',
                             handler = Some (fh\<lparr>pos := to_off_t (pos fh + rc)\<rparr>),
                             gerror = None, world = w1\<rparr>)))"

text \<open>
  \<^verbatim>\<open>smbfs_file_close\<close>. The pointer \<^verbatim>\<open>file_handler->data\<close> is not cleared after
  \<^verbatim>\<open>g_free\<close>.
\<close>

definition smbfs_file_close ::
  "('v, 'e, 's, 'p) env \<Rightarrow> vfs_file_handler_t option \<Rightarrow> 'p world
     \<Rightarrow> fault + (int, unit, 'p) result" where
  "smbfs_file_close env file_handler w =
     (if no_handler_data file_handler
      then Inr \<lparr>ret = - 1, out = (), handler = file_handler,
                gerror = g_set_error (MC_ERROR env) (- 1)
                  (gettext env ''smbfs: No file handler data present for closing file''),
                world = w\<rparr>
      else
        (let fh = the file_handler;
             file_handler_data = the (data fh);
             w0 = w\<lparr>errno := 0\<rparr>
         in case deref w0 file_handler_data of
              Inl f \<Rightarrow> Inl f
            | Inr d \<Rightarrow>
               (let (rc, w1) = protocol_call Smbc_close (smbc_close env (handle d)) w0
                in if rc < 0
                   then Inr \<lparr>ret = rc, out = (), handler = Some fh,
                             gerror = g_set_error (MC_ERROR env) (errno w1)
                               (smbfs_strerror env (errno w1)),
                             world = w1\<rparr>
                   else (case g_free file_handler_data w1 of
                           Inl f \<Rightarrow> Inl f
                         | Inr w2 \<Rightarrow>
                            Inr \<lparr>ret = rc, out = (), handler = Some fh,
                                 gerror = None, world = w2\<rparr>))))"

text \<open>\<^verbatim>\<open>smbfs_file_stat\<close>.\<close>

definition smbfs_file_stat ::
  "('v, 'e, 's, 'p) env \<Rightarrow> vfs_file_handler_t option \<Rightarrow> 's \<Rightarrow> 'p world
     \<Rightarrow> fault + (int, 's, 'p) result" where
  "smbfs_file_stat env file_handler buf w =
     (if no_handler_data file_handler
      then Inr \<lparr>ret = - 1, out = buf, handler = file_handler,
                gerror = g_set_error (MC_ERROR env) (- 1)
                  (gettext env ''smbfs: No file handler data present for fstat file''),
                world = w\<rparr>
      else
        (let fh = the file_handler;
             file_handler_data = the (data fh);
             w0 = w\<lparr>errno := 0\<rparr>
         in case deref w0 file_handler_data of
              Inl f \<Rightarrow> Inl f
            | Inr d \<Rightarrow>
               (let ((rc, buf'), w1) =
                      protocol_call Smbc_fstat (smbc_fstat env (handle d) buf) w0
                in Inr \<lparr>ret = rc, out = buf', handler = Some fh,
                        gerror = (if rc < 0
                                 then g_set_error (MC_ERROR env) (errno w1)
                                        (smbfs_strerror env (errno w1))
                                 else None),
                        world = w1\<rparr>)))"

text \<open>\<^verbatim>\<open>smbfs_file_write\<close>.\<close>

definition smbfs_file_write ::
  "('v, 'e, 's, 'p) env \<Rightarrow> vfs_file_handler_t option \<Rightarrow> string \<Rightarrow> nat \<Rightarrow> 'p world
     \<Rightarrow> fault + (int, unit, 'p) result" where
  "smbfs_file_write env file_handler buffer count w =
     (if no_handler_data file_handler
      then Inr \<lparr>ret = - 1, out = (), handler = file_handler,
                gerror = g_set_error (MC_ERROR env) (- 1)
                  (gettext env ''smbfs: No file handler data present for fstat file''),
                world = w\<rparr>
      else
        (let fh = the file_handler;
             file_handler_data = the (data fh);
             w0 = w\<lparr>errno := 0\<rparr>
         in case deref w0 file_handler_data of
              Inl f \<Rightarrow> Inl f
            | Inr d \<Rightarrow>
               (let (rc, w1) =
                      protocol_call Smbc_write (smbc_write env (handle d) buffer count) w0
                in Inr \<lparr>ret = rc, out = (), handler = Some fh,
                        gerror = (if rc < 0
                                 then g_set_error (MC_ERROR env) (errno w1)
                                        (smbfs_strerror env (errno w1))
                                 else None),
                        world = w1\<rparr>)))"

text \<open>\<^verbatim>\<open>smbfs_file_lseek\<close>: the failure test is \<^verbatim>\<open>rc == -1\<close>.\<close>

definition smbfs_file_lseek ::
  "('v, 'e, 's, 'p) env \<Rightarrow> vfs_file_handler_t option \<Rightarrow> int \<Rightarrow> int \<Rightarrow> 'p world
     \<Rightarrow> fault + (int, unit, 'p) result" where
  "smbfs_file_lseek env file_handler offset whence w =
     (if no_handler_data file_handler
      then Inr \<lparr>ret = - 1, out = (), handler = file_handler,
                gerror = g_set_error (MC_ERROR env) (- 1)
                  (gettext env ''smbfs: No file handler data present for fstat file''),
                world = w\<rparr>
      else
        (let fh = the file_handler;
             file_handler_data = the (data fh);
             w0 = w\<lparr>errno := 0\<rparr>
         in case deref w0 file_handler_data of
              Inl f \<Rightarrow> Inl f
            | Inr d \<Rightarrow>
               (let (rc, w1) =
                      protocol_call Smbc_lseek (smbc_lseek env (handle d) offset whence) w0
                in if rc = - 1
                   then Inr \<lparr>ret = rc, out = (), handler = Some fh,
                             gerror = g_set_error (MC_ERROR env) (errno w1)
                               (smbfs_strerror env (errno w1)),
                             world = w1\<rparr>
                   else Inr \<lparr>ret = rc, out = (), handler = Some (fh\<lparr>pos := rc\<rparr>),
                             gerror = None, world = w1\<rparr>)))"

subsection \<open>Error codes of the operating system\<close>

text \<open>
  The values that \<^verbatim>\<open>errno.h\<close> gives its error macros are positive integers
  (ISO C, 7.5); \<^verbatim>\<open>errno\<close> is zero when no call has set it.
\<close>

definition os_error_code :: "int \<Rightarrow> bool" where
  "os_error_code e = (0 < e)"

subsection \<open>A scripted protocol client\<close>

text \<open>
  A fake protocol client for concrete runs. Its state is a script: the list of the
  replies that its next calls give, each a return value and the \<^verbatim>\<open>errno\<close> that a
  failing call leaves. A call with no reply left fails with \<^verbatim>\<open>EBADF\<close> (9).
\<close>

definition fake_reply :: "int \<Rightarrow> (int \<times> int) list \<Rightarrow> int \<times> int \<times> (int \<times> int) list" where
  "fake_reply e s =
     (case s of
        [] \<Rightarrow> (- 1, 9, [])
      | (r, e') # s' \<Rightarrow> (r, (if r < 0 then e' else e), s'))"

definition fake_env :: "(string list, string, nat, (int \<times> int) list) env" where
  "fake_env =
     \<lparr>vfs_path_get_by_index = (\<lambda>v i. if i < 0 then last v else v ! nat i),
      smbfs_make_url = (\<lambda>e with_path. ''smb://'' @ e),
      smbc_open = (\<lambda>url flags mode. fake_reply),
      smbc_read = (\<lambda>h buffer count e s.
         case fake_reply e s of
           (r, e', s') \<Rightarrow> ((r, if r < 0 then buffer else replicate (nat r) (CHR ''x'')), e', s')),
      smbc_close = (\<lambda>h. fake_reply),
      smbc_fstat = (\<lambda>h buf e s.
         case fake_reply e s of (r, e', s') \<Rightarrow> ((r, if r < 0 then buf else 42), e', s')),
      smbc_write = (\<lambda>h buffer count. fake_reply),
      smbc_lseek = (\<lambda>h offset whence. fake_reply),
      smbfs_strerror = (\<lambda>e. if e = 2 then ''No such file or directory'' else ''Unknown error''),
      gettext = (\<lambda>s. s),
      MC_ERROR = 1\<rparr>"

text \<open>
  A world with one live cell at address 0, wrapping the protocol handle 3, and a stale
  \<^verbatim>\<open>errno\<close> of 5; and a file handler that owns the cell.
\<close>

definition fake_world :: "(int \<times> int) list \<Rightarrow> (int \<times> int) list world" where
  "fake_world script = \<lparr>errno = 5, smbc_ctx = script, heap = [Some \<lparr>handle = 3\<rparr>], invoked = []\<rparr>"

definition open_handler :: vfs_file_handler_t where
  "open_handler = \<lparr>pos = 10, data = Some 0\<rparr>"


section \<open>Properties\<close>

subsection \<open>What each function computes\<close>

lemma to_off_t_id: "in_off_t x \<Longrightarrow> to_off_t x = x"
  by (simp add: in_off_t_def to_off_t_def)

lemma deref_errno [simp]: "deref (w\<lparr>errno := x\<rparr>) p = deref w p"
  by (simp add: deref_def)

lemma deref_after_call [simp]:
  "deref (w\<lparr>errno := e, smbc_ctx := c, invoked := l\<rparr>) p = deref w p"
  by (simp add: deref_def)

lemma deref_live: "deref w p = Inr d \<Longrightarrow> p < length (heap w) \<and> heap w ! p = Some d"
  by (auto simp: deref_def split: if_splits option.splits)

lemma no_handler_data_Some [simp]: "data fh = Some p \<Longrightarrow> \<not> no_handler_data (Some fh)"
  by (simp add: no_handler_data_def)

lemma smbfs_file_read_live:
  assumes "data fh = Some p" and "deref w p = Inr d"
    and "smbc_read env (handle d) buffer count 0 (smbc_ctx w) = ((rc, b), e, c)"
  shows "smbfs_file_read env (Some fh) buffer count w =
     Inr \<lparr>ret = rc, out = b,
          handler = (if rc < 0 then Some fh else Some (fh\<lparr>pos := to_off_t (pos fh + rc)\<rparr>)),
          gerror = (if rc < 0
                    then Some \<lparr>domain = MC_ERROR env, code = e, message = smbfs_strerror env e\<rparr>
                    else None),
          world = w\<lparr>errno := e, smbc_ctx := c, invoked := invoked w @ [Smbc_read]\<rparr>\<rparr>"
  using assms by (simp add: smbfs_file_read_def protocol_call_def g_set_error_def)

lemma smbfs_file_close_live:
  assumes "data fh = Some p" and "deref w p = Inr d"
    and "smbc_close env (handle d) 0 (smbc_ctx w) = (rc, e, c)"
  shows "smbfs_file_close env (Some fh) w =
     Inr \<lparr>ret = rc, out = (), handler = Some fh,
          gerror = (if rc < 0
                    then Some \<lparr>domain = MC_ERROR env, code = e, message = smbfs_strerror env e\<rparr>
                    else None),
          world = w\<lparr>errno := e, smbc_ctx := c, invoked := invoked w @ [Smbc_close],
                    heap := (if rc < 0 then heap w else (heap w)[p := None])\<rparr>\<rparr>"
  using assms by (simp add: smbfs_file_close_def protocol_call_def g_set_error_def g_free_def)


lemma smbfs_file_write_live:
  assumes "data fh = Some p" and "deref w p = Inr d"
    and "smbc_write env (handle d) buffer count 0 (smbc_ctx w) = (rc, e, c)"
  shows "smbfs_file_write env (Some fh) buffer count w =
     Inr \<lparr>ret = rc, out = (), handler = Some fh,
          gerror = (if rc < 0
                    then Some \<lparr>domain = MC_ERROR env, code = e, message = smbfs_strerror env e\<rparr>
                    else None),
          world = w\<lparr>errno := e, smbc_ctx := c, invoked := invoked w @ [Smbc_write]\<rparr>\<rparr>"
  using assms by (simp add: smbfs_file_write_def protocol_call_def g_set_error_def)

lemma smbfs_file_lseek_live:
  assumes "data fh = Some p" and "deref w p = Inr d"
    and "smbc_lseek env (handle d) offset whence 0 (smbc_ctx w) = (rc, e, c)"
  shows "smbfs_file_lseek env (Some fh) offset whence w =
     Inr \<lparr>ret = rc, out = (),
          handler = (if rc = - 1 then Some fh else Some (fh\<lparr>pos := rc\<rparr>)),
          gerror = (if rc = - 1
                    then Some \<lparr>domain = MC_ERROR env, code = e, message = smbfs_strerror env e\<rparr>
                    else None),
          world = w\<lparr>errno := e, smbc_ctx := c, invoked := invoked w @ [Smbc_lseek]\<rparr>\<rparr>"
  using assms by (simp add: smbfs_file_lseek_def protocol_call_def g_set_error_def)

lemma smbfs_file_open_eq:
  assumes "smbc_open env (smbfs_make_url env (vfs_path_get_by_index env vpath (- 1)) True)
             flags mode 0 (smbc_ctx w) = (h, e, c)"
  shows "smbfs_file_open env vpath flags mode w =
     (if 0 \<le> h
      then \<lparr>ret = Some (length (heap w)), out = (), handler = None, gerror = None,
            world = w\<lparr>errno := e, smbc_ctx := c, invoked := invoked w @ [Smbc_open],
                      heap := heap w @ [Some \<lparr>handle = h\<rparr>]\<rparr>\<rparr>
      else \<lparr>ret = None, out = (), handler = None,
            gerror = Some \<lparr>domain = MC_ERROR env, code = e, message = smbfs_strerror env e\<rparr>,
            world = w\<lparr>errno := e, smbc_ctx := c, invoked := invoked w @ [Smbc_open]\<rparr>\<rparr>)"
  using assms
  by (simp add: smbfs_file_open_def protocol_call_def g_set_error_def g_new0_def store_handle_def
      g_free_string_def)

subsection \<open>Calls without handler data\<close>

lemma no_handler_data_iff:
  "no_handler_data file_handler =
     (file_handler = None \<or> (\<exists>fh. file_handler = Some fh \<and> data fh = None))"
  by (cases file_handler) (simp_all add: no_handler_data_def)

lemma smbfs_file_read_no_data:
  "no_handler_data file_handler \<Longrightarrow>
   smbfs_file_read env file_handler buffer count w =
     Inr \<lparr>ret = - 1, out = buffer, handler = file_handler,
          gerror = Some \<lparr>domain = MC_ERROR env, code = - 1,
            message = gettext env ''smbfs: No file handler data present for reading file''\<rparr>,
          world = w\<rparr>"
  by (simp add: smbfs_file_read_def g_set_error_def)

lemma smbfs_file_close_no_data:
  "no_handler_data file_handler \<Longrightarrow>
   smbfs_file_close env file_handler w =
     Inr \<lparr>ret = - 1, out = (), handler = file_handler,
          gerror = Some \<lparr>domain = MC_ERROR env, code = - 1,
            message = gettext env ''smbfs: No file handler data present for closing file''\<rparr>,
          world = w\<rparr>"
  by (simp add: smbfs_file_close_def g_set_error_def)

lemma smbfs_file_stat_no_data:
  "no_handler_data file_handler \<Longrightarrow>
   smbfs_file_stat env file_handler buf w =
     Inr \<lparr>ret = - 1, out = buf, handler = file_handler,
          gerror = Some \<lparr>domain = MC_ERROR env, code = - 1,
            message = gettext env ''smbfs: No file handler data present for fstat file''\<rparr>,
          world = w\<rparr>"
  by (simp add: smbfs_file_stat_def g_set_error_def)

lemma smbfs_file_write_no_data:
  "no_handler_data file_handler \<Longrightarrow>
   smbfs_file_write env file_handler buffer count w =
     Inr \<lparr>ret = - 1, out = (), handler = file_handler,
          gerror = Some \<lparr>domain = MC_ERROR env, code = - 1,
            message = gettext env ''smbfs: No file handler data present for fstat file''\<rparr>,
          world = w\<rparr>"
  by (simp add: smbfs_file_write_def g_set_error_def)

lemma smbfs_file_lseek_no_data:
  "no_handler_data file_handler \<Longrightarrow>
   smbfs_file_lseek env file_handler offset whence w =
     Inr \<lparr>ret = - 1, out = (), handler = file_handler,
          gerror = Some \<lparr>domain = MC_ERROR env, code = - 1,
            message = gettext env ''smbfs: No file handler data present for fstat file''\<rparr>,
          world = w\<rparr>"
  by (simp add: smbfs_file_lseek_def g_set_error_def)

subsection \<open>The cells, and the stale errno\<close>

lemma protocol_call_heap: "protocol_call name f w = (r, w') \<Longrightarrow> heap w' = heap w"
  by (auto simp: protocol_call_def split: prod.splits)

lemma smbfs_file_read_heap:
  "smbfs_file_read env file_handler buffer count w = Inr r \<Longrightarrow> heap (world r) = heap w"
  by (auto simp: smbfs_file_read_def Let_def split: if_splits sum.splits prod.splits
      dest: protocol_call_heap)

lemma smbfs_file_stat_heap:
  "smbfs_file_stat env file_handler buf w = Inr r \<Longrightarrow> heap (world r) = heap w"
  by (auto simp: smbfs_file_stat_def Let_def split: if_splits sum.splits prod.splits
      dest: protocol_call_heap)

lemma smbfs_file_write_heap:
  "smbfs_file_write env file_handler buffer count w = Inr r \<Longrightarrow> heap (world r) = heap w"
  by (auto simp: smbfs_file_write_def Let_def split: if_splits sum.splits prod.splits
      dest: protocol_call_heap)

lemma smbfs_file_lseek_heap:
  "smbfs_file_lseek env file_handler offset whence w = Inr r \<Longrightarrow> heap (world r) = heap w"
  by (auto simp: smbfs_file_lseek_def Let_def split: if_splits sum.splits prod.splits
      dest: protocol_call_heap)

lemma smbfs_file_open_heap:
  "take (length (heap w)) (heap (world (smbfs_file_open env vpath flags mode w))) = heap w"
  by (auto simp: smbfs_file_open_def Let_def g_new0_def store_handle_def protocol_call_def
      g_free_string_def split: prod.splits)







subsection \<open>The scripted client at work\<close>

lemma fake_handler_data: "data open_handler = Some 0"
  by (simp add: open_handler_def)

lemma fake_deref: "deref (fake_world s) 0 = Inr \<lparr>handle = 3\<rparr>"
  by (simp add: fake_world_def deref_def)

lemma fake_smbc_read:
  "smbc_read fake_env h buffer count e (smbc_ctx (fake_world ((r, e') # s))) =
     ((r, if r < 0 then buffer else replicate (nat r) (CHR ''x'')), (if r < 0 then e' else e), s)"
  by (simp add: fake_env_def fake_reply_def fake_world_def)


lemma fake_smbc_close:
  "smbc_close fake_env h e (smbc_ctx (fake_world ((r, e') # s))) = (r, (if r < 0 then e' else e), s)"
  by (simp add: fake_env_def fake_reply_def fake_world_def)

lemma fake_smbc_write:
  "smbc_write fake_env h buffer count e (smbc_ctx (fake_world ((r, e') # s))) =
     (r, (if r < 0 then e' else e), s)"
  by (simp add: fake_env_def fake_reply_def fake_world_def)

lemma fake_smbc_lseek:
  "smbc_lseek fake_env h offset whence e (smbc_ctx (fake_world ((r, e') # s))) =
     (r, (if r < 0 then e' else e), s)"
  by (simp add: fake_env_def fake_reply_def fake_world_def)

lemma fake_smbc_open:
  "smbc_open fake_env url flags mode e (smbc_ctx (fake_world ((r, e') # s))) =
     (r, (if r < 0 then e' else e), s)"
  by (simp add: fake_env_def fake_reply_def fake_world_def)

lemma fake_env_sel:
  "MC_ERROR fake_env = 1" "gettext fake_env m = m"
  "smbfs_strerror fake_env e = (if e = 2 then ''No such file or directory'' else ''Unknown error'')"
  by (simp_all add: fake_env_def)

section \<open>The claims\<close>

text \<open>
  In the theorems below a handle with backend state is a handler \<open>fh\<close> whose
  \<^verbatim>\<open>data\<close> is a pointer \<open>p\<close> to a live cell \<open>d\<close>: \<open>data fh = Some p\<close> and
  \<open>deref w p = Inr d\<close>. (A pointer that is not \<^verbatim>\<open>NULL\<close> and points to no live cell
  makes the C program undefined; the functions of the model return a \<open>fault\<close> there.)
  The hypothesis on the primitive only names what it returns
  (\<open>rc\<close>), the \<^verbatim>\<open>errno\<close> it leaves (\<open>e\<close>) and the client state it leaves (\<open>c\<close>);
  the argument \<open>0\<close> before the client state is the \<^verbatim>\<open>errno\<close> that the function
  has just set.
\<close>

text \<open>
  Claim C1, as amended. For a handle with backend state whose \<^verbatim>\<open>pos\<close> is an
  \<^verbatim>\<open>off_t\<close>, when \<^verbatim>\<open>smbc_read\<close> returns \<open>rc \<ge> 0\<close> and \<open>pos + rc\<close> does not
  exceed the largest \<^verbatim>\<open>off_t\<close>, \<^verbatim>\<open>smbfs_file_read\<close> returns \<open>rc\<close>, stores no error
  and adds exactly \<open>rc\<close> to \<^verbatim>\<open>pos\<close>; with \<open>rc = 0\<close> (end of stream) the handler is
  as it was.
\<close>

theorem smbfs_file_read_advances_pos:
  assumes "data fh = Some p" and "deref w p = Inr d"
    and "smbc_read env (handle d) buffer count 0 (smbc_ctx w) = ((rc, b), e, c)"
    and "0 \<le> rc"
    and "in_off_t (pos fh)" and "pos fh + rc \<le> 9223372036854775807"
  shows "smbfs_file_read env (Some fh) buffer count w =
           Inr \<lparr>ret = rc, out = b, handler = Some (fh\<lparr>pos := pos fh + rc\<rparr>), gerror = None,
                world = w\<lparr>errno := e, smbc_ctx := c, invoked := invoked w @ [Smbc_read]\<rparr>\<rparr>
         \<and> (rc = 0 \<longrightarrow> fh\<lparr>pos := pos fh + rc\<rparr> = fh)"
proof -
  from assms(4-6) have "in_off_t (pos fh + rc)"
    by (simp add: in_off_t_def)
  then have "to_off_t (pos fh + rc) = pos fh + rc"
    by (rule to_off_t_id)
  with assms(4) smbfs_file_read_live [OF assms(1-3)] show ?thesis
    by simp
qed

text \<open>A read of 4 bytes from position 10, and a read at end of stream.\<close>

theorem smbfs_file_read_advances_pos_witness:
  "smbfs_file_read fake_env (Some open_handler) '''' 4 (fake_world [(4, 0)]) =
     Inr \<lparr>ret = 4, out = ''xxxx'', handler = Some \<lparr>pos = 14, data = Some 0\<rparr>, gerror = None,
          world = \<lparr>errno = 0, smbc_ctx = [], heap = [Some \<lparr>handle = 3\<rparr>], invoked = [Smbc_read]\<rparr>\<rparr>
   \<and> smbfs_file_read fake_env (Some open_handler) '''' 4 (fake_world [(0, 0)]) =
     Inr \<lparr>ret = 0, out = '''', handler = Some \<lparr>pos = 10, data = Some 0\<rparr>, gerror = None,
          world = \<lparr>errno = 0, smbc_ctx = [], heap = [Some \<lparr>handle = 3\<rparr>], invoked = [Smbc_read]\<rparr>\<rparr>"
proof -
  have range: "in_off_t (pos open_handler)"
    by (simp add: in_off_t_def open_handler_def)
  have r4: "smbc_read fake_env (handle \<lparr>handle = 3\<rparr>) '''' 4 0 (smbc_ctx (fake_world [(4, 0)]))
              = ((4, ''xxxx''), 0, [])"
    by (simp add: fake_smbc_read numeral_eq_Suc)
  have r0: "smbc_read fake_env (handle \<lparr>handle = 3\<rparr>) '''' 4 0 (smbc_ctx (fake_world [(0, 0)]))
              = ((0, ''''), 0, [])"
    by (simp add: fake_smbc_read)
  have b4: "pos open_handler + 4 \<le> 9223372036854775807"
    by (simp add: open_handler_def)
  have b0: "pos open_handler + 0 \<le> 9223372036854775807"
    by (simp add: open_handler_def)
  have p4: "(0::int) \<le> 4" and p0: "(0::int) \<le> 0"
    by simp_all
  show ?thesis
    using
      smbfs_file_read_advances_pos [OF fake_handler_data fake_deref r4 p4 range b4]
      smbfs_file_read_advances_pos [OF fake_handler_data fake_deref r0 p0 range b0]
    by (simp add: open_handler_def fake_world_def)
qed

text \<open>
  The claim as it was stated, without the bound, fails at the largest \<^verbatim>\<open>off_t\<close>: a read
  of one byte from position \<open>9223372036854775807\<close> leaves the position
  \<open>-9223372036854775808\<close>, which is not the old position plus one.
\<close>

theorem smbfs_file_read_wraps_at_off_t_max:
  "smbfs_file_read fake_env (Some \<lparr>pos = 9223372036854775807, data = Some 0\<rparr>) '''' 1
       (fake_world [(1, 0)]) =
     Inr \<lparr>ret = 1, out = ''x'',
          handler = Some \<lparr>pos = - 9223372036854775808, data = Some 0\<rparr>, gerror = None,
          world = \<lparr>errno = 0, smbc_ctx = [], heap = [Some \<lparr>handle = 3\<rparr>], invoked = [Smbc_read]\<rparr>\<rparr>
   \<and> (- 9223372036854775808 :: int) \<noteq> 9223372036854775807 + 1"
proof -
  have live: "data \<lparr>pos = 9223372036854775807, data = Some 0\<rparr> = Some 0"
    by simp
  have r1: "smbc_read fake_env (handle \<lparr>handle = 3\<rparr>) '''' 1 0 (smbc_ctx (fake_world [(1, 0)]))
              = ((1, ''x''), 0, [])"
    by (simp add: fake_smbc_read)
  show ?thesis
    using smbfs_file_read_live [OF live fake_deref r1]
    by (simp add: to_off_t_def fake_world_def)
qed

text \<open>
  Claim C2. For a handle with backend state, when \<^verbatim>\<open>smbc_write\<close> returns
  \<open>rc \<ge> 0\<close>, \<^verbatim>\<open>smbfs_file_write\<close> returns \<open>rc\<close>, stores no error and leaves the
  handler, \<^verbatim>\<open>pos\<close> included, as it was.
\<close>

theorem smbfs_file_write_keeps_pos:
  assumes "data fh = Some p" and "deref w p = Inr d"
    and "smbc_write env (handle d) buffer count 0 (smbc_ctx w) = (rc, e, c)"
    and "0 \<le> rc"
  shows "smbfs_file_write env (Some fh) buffer count w =
           Inr \<lparr>ret = rc, out = (), handler = Some fh, gerror = None,
                world = w\<lparr>errno := e, smbc_ctx := c, invoked := invoked w @ [Smbc_write]\<rparr>\<rparr>"
  using assms smbfs_file_write_live [of fh p w d env buffer count rc e c] by simp

theorem smbfs_file_write_keeps_pos_witness:
  "smbfs_file_write fake_env (Some open_handler) ''hello'' 5 (fake_world [(5, 0)]) =
     Inr \<lparr>ret = 5, out = (), handler = Some \<lparr>pos = 10, data = Some 0\<rparr>, gerror = None,
          world = \<lparr>errno = 0, smbc_ctx = [], heap = [Some \<lparr>handle = 3\<rparr>], invoked = [Smbc_write]\<rparr>\<rparr>"
  using smbfs_file_write_keeps_pos [OF fake_handler_data fake_deref, of fake_env "''hello''" 5 "[(5, 0)]" 5 0 "[]"]
  by (simp add: fake_smbc_write) (simp add: open_handler_def fake_world_def)

text \<open>
  Claim C3. For each of \<^verbatim>\<open>smbfs_file_read\<close>, \<^verbatim>\<open>smbfs_file_write\<close>,
  \<^verbatim>\<open>smbfs_file_lseek\<close>, \<^verbatim>\<open>smbfs_file_stat\<close> and \<^verbatim>\<open>smbfs_file_close\<close>: when
  the handler is \<^verbatim>\<open>NULL\<close> or its \<^verbatim>\<open>data\<close> is \<^verbatim>\<open>NULL\<close>, the function returns
  \<open>-1\<close> and stores an error with the code \<open>-1\<close>, which is no error code of the
  operating system. The world it leaves is the world it found: the log of primitives, the
  client state, \<^verbatim>\<open>errno\<close> and the cells are untouched, and so is the handler. This holds
  for every environment, so for every protocol client.
\<close>

theorem missing_handler_data_is_contract_error:
  assumes "file_handler = None \<or> (\<exists>fh. file_handler = Some fh \<and> data fh = None)"
  shows "smbfs_file_read env file_handler buffer count w =
           Inr \<lparr>ret = - 1, out = buffer, handler = file_handler,
                gerror = Some \<lparr>domain = MC_ERROR env, code = - 1,
                  message = gettext env ''smbfs: No file handler data present for reading file''\<rparr>,
                world = w\<rparr>
       \<and> smbfs_file_write env file_handler buffer count w =
           Inr \<lparr>ret = - 1, out = (), handler = file_handler,
                gerror = Some \<lparr>domain = MC_ERROR env, code = - 1,
                  message = gettext env ''smbfs: No file handler data present for fstat file''\<rparr>,
                world = w\<rparr>
       \<and> smbfs_file_lseek env file_handler offset whence w =
           Inr \<lparr>ret = - 1, out = (), handler = file_handler,
                gerror = Some \<lparr>domain = MC_ERROR env, code = - 1,
                  message = gettext env ''smbfs: No file handler data present for fstat file''\<rparr>,
                world = w\<rparr>
       \<and> smbfs_file_stat env file_handler buf w =
           Inr \<lparr>ret = - 1, out = buf, handler = file_handler,
                gerror = Some \<lparr>domain = MC_ERROR env, code = - 1,
                  message = gettext env ''smbfs: No file handler data present for fstat file''\<rparr>,
                world = w\<rparr>
       \<and> smbfs_file_close env file_handler w =
           Inr \<lparr>ret = - 1, out = (), handler = file_handler,
                gerror = Some \<lparr>domain = MC_ERROR env, code = - 1,
                  message = gettext env ''smbfs: No file handler data present for closing file''\<rparr>,
                world = w\<rparr>
       \<and> \<not> os_error_code (- 1)"
proof -
  from assms have g: "no_handler_data file_handler"
    by (simp add: no_handler_data_iff)
  have "\<not> os_error_code (- 1)"
    by (simp add: os_error_code_def)
  with g show ?thesis
    by (simp only: smbfs_file_read_no_data smbfs_file_write_no_data smbfs_file_lseek_no_data
        smbfs_file_stat_no_data smbfs_file_close_no_data simp_thms)
qed

text \<open>
  A handler whose \<^verbatim>\<open>data\<close> is \<^verbatim>\<open>NULL\<close>, and a \<^verbatim>\<open>NULL\<close> handler: the script of the
  client is not consumed, the stale \<^verbatim>\<open>errno\<close> stays, and no call is logged.
\<close>

theorem missing_handler_data_is_contract_error_witness:
  "smbfs_file_read fake_env (Some \<lparr>pos = 10, data = None\<rparr>) ''abc'' 3 (fake_world [(3, 0)]) =
     Inr \<lparr>ret = - 1, out = ''abc'', handler = Some \<lparr>pos = 10, data = None\<rparr>,
          gerror = Some \<lparr>domain = 1, code = - 1,
            message = ''smbfs: No file handler data present for reading file''\<rparr>,
          world = \<lparr>errno = 5, smbc_ctx = [(3, 0)], heap = [Some \<lparr>handle = 3\<rparr>], invoked = []\<rparr>\<rparr>
   \<and> smbfs_file_write fake_env (Some \<lparr>pos = 10, data = None\<rparr>) ''abc'' 3 (fake_world [(3, 0)]) =
     Inr \<lparr>ret = - 1, out = (), handler = Some \<lparr>pos = 10, data = None\<rparr>,
          gerror = Some \<lparr>domain = 1, code = - 1,
            message = ''smbfs: No file handler data present for fstat file''\<rparr>,
          world = \<lparr>errno = 5, smbc_ctx = [(3, 0)], heap = [Some \<lparr>handle = 3\<rparr>], invoked = []\<rparr>\<rparr>
   \<and> smbfs_file_lseek fake_env (Some \<lparr>pos = 10, data = None\<rparr>) 0 0 (fake_world [(3, 0)]) =
     Inr \<lparr>ret = - 1, out = (), handler = Some \<lparr>pos = 10, data = None\<rparr>,
          gerror = Some \<lparr>domain = 1, code = - 1,
            message = ''smbfs: No file handler data present for fstat file''\<rparr>,
          world = \<lparr>errno = 5, smbc_ctx = [(3, 0)], heap = [Some \<lparr>handle = 3\<rparr>], invoked = []\<rparr>\<rparr>
   \<and> smbfs_file_stat fake_env (Some \<lparr>pos = 10, data = None\<rparr>) 7 (fake_world [(3, 0)]) =
     Inr \<lparr>ret = - 1, out = 7, handler = Some \<lparr>pos = 10, data = None\<rparr>,
          gerror = Some \<lparr>domain = 1, code = - 1,
            message = ''smbfs: No file handler data present for fstat file''\<rparr>,
          world = \<lparr>errno = 5, smbc_ctx = [(3, 0)], heap = [Some \<lparr>handle = 3\<rparr>], invoked = []\<rparr>\<rparr>
   \<and> smbfs_file_close fake_env (Some \<lparr>pos = 10, data = None\<rparr>) (fake_world [(3, 0)]) =
     Inr \<lparr>ret = - 1, out = (), handler = Some \<lparr>pos = 10, data = None\<rparr>,
          gerror = Some \<lparr>domain = 1, code = - 1,
            message = ''smbfs: No file handler data present for closing file''\<rparr>,
          world = \<lparr>errno = 5, smbc_ctx = [(3, 0)], heap = [Some \<lparr>handle = 3\<rparr>], invoked = []\<rparr>\<rparr>
   \<and> smbfs_file_close fake_env None (fake_world [(3, 0)]) =
     Inr \<lparr>ret = - 1, out = (), handler = None,
          gerror = Some \<lparr>domain = 1, code = - 1,
            message = ''smbfs: No file handler data present for closing file''\<rparr>,
          world = \<lparr>errno = 5, smbc_ctx = [(3, 0)], heap = [Some \<lparr>handle = 3\<rparr>], invoked = []\<rparr>\<rparr>"
proof -
  have no_data: "Some \<lparr>pos = 10, data = None\<rparr> = None
      \<or> (\<exists>fh. Some \<lparr>pos = 10, data = None\<rparr> = Some fh \<and> data fh = None)"
    by simp
  have null: "(None :: vfs_file_handler_t option) = None
      \<or> (\<exists>fh. (None :: vfs_file_handler_t option) = Some fh \<and> data fh = None)"
    by simp
  show ?thesis
    using
      missing_handler_data_is_contract_error [OF no_data,
        of fake_env "''abc''" 3 "fake_world [(3, 0)]" 0 0 7]
      missing_handler_data_is_contract_error [OF null,
        of fake_env "''abc''" 3 "fake_world [(3, 0)]" 0 0 7]
    by (simp add: fake_env_sel fake_world_def)
qed

text \<open>
  Claim C4. For a handle with backend state, \<^verbatim>\<open>smbfs_file_close\<close> releases the cell
  exactly when \<^verbatim>\<open>smbc_close\<close> does not return a negative value. When it does, the
  function stores an error whose code is the \<^verbatim>\<open>errno\<close> left by the primitive, the
  cell stays live (in the world \<open>w1\<close>), and a second close of the same handler in
  \<open>w1\<close> is a defined call that releases the cell once the primitive succeeds. No other
  cell is touched, and none of the other five functions releases a cell: read, write,
  lseek and stat leave the cells as they are, and open only appends one.
\<close>

theorem smbfs_file_close_releases_on_success_only:
  assumes "data fh = Some p" and "deref w p = Inr d"
    and "smbc_close env (handle d) 0 (smbc_ctx w) = (rc, e, c)"
  shows "(let w1 = w\<lparr>errno := e, smbc_ctx := c, invoked := invoked w @ [Smbc_close]\<rparr>;
              w2 = w1\<lparr>heap := (heap w)[p := None]\<rparr>
          in smbfs_file_close env (Some fh) w =
               Inr (if rc < 0
                    then \<lparr>ret = rc, out = (), handler = Some fh,
                          gerror = Some \<lparr>domain = MC_ERROR env, code = e,
                                         message = smbfs_strerror env e\<rparr>,
                          world = w1\<rparr>
                    else \<lparr>ret = rc, out = (), handler = Some fh, gerror = None, world = w2\<rparr>)
           \<and> deref w1 p = Inr d
           \<and> deref w2 p = Inl Invalid_Pointer
           \<and> (\<forall>q. q \<noteq> p \<longrightarrow> deref w2 q = deref w q)
           \<and> (\<forall>rc' e' c'. rc < 0 \<and> smbc_close env (handle d) 0 c = (rc', e', c') \<and> 0 \<le> rc' \<longrightarrow>
                 smbfs_file_close env (Some fh) w1 =
                   Inr \<lparr>ret = rc', out = (), handler = Some fh, gerror = None,
                        world = w2\<lparr>errno := e', smbc_ctx := c',
                                   invoked := invoked w @ [Smbc_close, Smbc_close]\<rparr>\<rparr>))
       \<and> (\<forall>r. smbfs_file_read env file_handler buffer count w = Inr r \<longrightarrow> heap (world r) = heap w)
       \<and> (\<forall>r. smbfs_file_write env file_handler buffer count w = Inr r \<longrightarrow> heap (world r) = heap w)
       \<and> (\<forall>r. smbfs_file_lseek env file_handler offset whence w = Inr r \<longrightarrow> heap (world r) = heap w)
       \<and> (\<forall>r. smbfs_file_stat env file_handler buf w = Inr r \<longrightarrow> heap (world r) = heap w)
       \<and> take (length (heap w)) (heap (world (smbfs_file_open env vpath flags mode w))) = heap w"
proof -
  let ?w1 = "w\<lparr>errno := e, smbc_ctx := c, invoked := invoked w @ [Smbc_close]\<rparr>"
  let ?w2 = "?w1\<lparr>heap := (heap w)[p := None]\<rparr>"
  have p: "p < length (heap w)" "heap w ! p = Some d"
    using deref_live [OF assms(2)] by simp_all
  have first: "smbfs_file_close env (Some fh) w =
               Inr (if rc < 0
                    then \<lparr>ret = rc, out = (), handler = Some fh,
                          gerror = Some \<lparr>domain = MC_ERROR env, code = e,
                                         message = smbfs_strerror env e\<rparr>,
                          world = ?w1\<rparr>
                    else \<lparr>ret = rc, out = (), handler = Some fh, gerror = None, world = ?w2\<rparr>)"
    using smbfs_file_close_live [OF assms] by simp
  have still: "deref ?w1 p = Inr d"
    using assms(2) by simp
  have gone: "deref ?w2 p = Inl Invalid_Pointer"
    by (simp add: deref_def)
  have others: "\<forall>q. q \<noteq> p \<longrightarrow> deref ?w2 q = deref w q"
    by (simp add: deref_def)
  have retry: "\<forall>rc' e' c'. rc < 0 \<and> smbc_close env (handle d) 0 c = (rc', e', c') \<and> 0 \<le> rc' \<longrightarrow>
                 smbfs_file_close env (Some fh) ?w1 =
                   Inr \<lparr>ret = rc', out = (), handler = Some fh, gerror = None,
                        world = ?w2\<lparr>errno := e', smbc_ctx := c',
                                   invoked := invoked w @ [Smbc_close, Smbc_close]\<rparr>\<rparr>"
  proof (intro allI impI, elim conjE)
    fix rc' e' c'
    assume again: "smbc_close env (handle d) 0 c = (rc', e', c')" and ok: "0 \<le> rc'"
    from again have "smbc_close env (handle d) 0 (smbc_ctx ?w1) = (rc', e', c')"
      by simp
    from smbfs_file_close_live [OF assms(1) still this] ok
    show "smbfs_file_close env (Some fh) ?w1 =
                   Inr \<lparr>ret = rc', out = (), handler = Some fh, gerror = None,
                        world = ?w2\<lparr>errno := e', smbc_ctx := c',
                                   invoked := invoked w @ [Smbc_close, Smbc_close]\<rparr>\<rparr>"
      by simp
  qed
  from first still gone others retry show ?thesis
    using smbfs_file_read_heap [of env file_handler buffer count w]
      smbfs_file_write_heap [of env file_handler buffer count w]
      smbfs_file_lseek_heap [of env file_handler offset whence w]
      smbfs_file_stat_heap [of env file_handler buf w]
      smbfs_file_open_heap [of w env vpath flags mode]
    unfolding Let_def by blast
qed

text \<open>
  A close that fails with \<^verbatim>\<open>EIO\<close> (5) and is retried with success, and a close that
  succeeds at once.
\<close>

theorem smbfs_file_close_releases_on_success_only_witness:
  "smbfs_file_close fake_env (Some open_handler) (fake_world [(- 1, 5), (0, 0)]) =
     Inr \<lparr>ret = - 1, out = (), handler = Some \<lparr>pos = 10, data = Some 0\<rparr>,
          gerror = Some \<lparr>domain = 1, code = 5, message = ''Unknown error''\<rparr>,
          world = \<lparr>errno = 5, smbc_ctx = [(0, 0)], heap = [Some \<lparr>handle = 3\<rparr>],
                   invoked = [Smbc_close]\<rparr>\<rparr>
   \<and> smbfs_file_close fake_env (Some open_handler)
       \<lparr>errno = 5, smbc_ctx = [(0, 0)], heap = [Some \<lparr>handle = 3\<rparr>], invoked = [Smbc_close]\<rparr> =
     Inr \<lparr>ret = 0, out = (), handler = Some \<lparr>pos = 10, data = Some 0\<rparr>, gerror = None,
          world = \<lparr>errno = 0, smbc_ctx = [], heap = [None],
                   invoked = [Smbc_close, Smbc_close]\<rparr>\<rparr>
   \<and> deref \<lparr>errno = 5, smbc_ctx = [(0 :: int, 0 :: int)], heap = [None], invoked = [Smbc_close]\<rparr> 0
       = Inl Invalid_Pointer
   \<and> smbfs_file_close fake_env (Some open_handler) (fake_world [(0, 0)]) =
     Inr \<lparr>ret = 0, out = (), handler = Some \<lparr>pos = 10, data = Some 0\<rparr>, gerror = None,
          world = \<lparr>errno = 0, smbc_ctx = [], heap = [None], invoked = [Smbc_close]\<rparr>\<rparr>"
proof -
  have fails: "smbc_close fake_env (handle \<lparr>handle = 3\<rparr>) 0 (smbc_ctx (fake_world [(- 1, 5), (0, 0)]))
                 = (- 1, 5, [(0, 0)])"
    by (simp add: fake_smbc_close)
  have again: "smbc_close fake_env (handle \<lparr>handle = 3\<rparr>) 0 [(0, 0)] = (0, 0, [])"
    by (simp add: fake_env_def fake_reply_def)
  have works: "smbc_close fake_env (handle \<lparr>handle = 3\<rparr>) 0 (smbc_ctx (fake_world [(0, 0)]))
                 = (0, 0, [])"
    by (simp add: fake_smbc_close)
  show ?thesis
    using
      smbfs_file_close_releases_on_success_only [OF fake_handler_data fake_deref fails,
        where file_handler = None and buffer = "[]" and count = 0 and offset = 0 and whence = 0
          and buf = 0 and vpath = "[]" and flags = 0 and mode = 0]
      smbfs_file_close_releases_on_success_only [OF fake_handler_data fake_deref works,
        where file_handler = None and buffer = "[]" and count = 0 and offset = 0 and whence = 0
          and buf = 0 and vpath = "[]" and flags = 0 and mode = 0]
      again
    by (clarsimp simp: Let_def fake_env_sel open_handler_def fake_world_def)
qed

text \<open>
  Claim C5. For a handle with backend state, when \<^verbatim>\<open>smbc_lseek\<close> returns a value
  other than \<open>-1\<close>, \<^verbatim>\<open>smbfs_file_lseek\<close> sets \<^verbatim>\<open>pos\<close> to that value and returns
  it; when it returns \<open>-1\<close>, the function stores an error whose code is the \<^verbatim>\<open>errno\<close>
  left by the primitive and the handler is as it was.
\<close>

theorem smbfs_file_lseek_sets_pos:
  assumes "data fh = Some p" and "deref w p = Inr d"
    and "smbc_lseek env (handle d) offset whence 0 (smbc_ctx w) = (rc, e, c)"
  shows "smbfs_file_lseek env (Some fh) offset whence w =
           Inr (if rc = - 1
                then \<lparr>ret = rc, out = (), handler = Some fh,
                      gerror = Some \<lparr>domain = MC_ERROR env, code = e, message = smbfs_strerror env e\<rparr>,
                      world = w\<lparr>errno := e, smbc_ctx := c, invoked := invoked w @ [Smbc_lseek]\<rparr>\<rparr>
                else \<lparr>ret = rc, out = (), handler = Some (fh\<lparr>pos := rc\<rparr>), gerror = None,
                      world = w\<lparr>errno := e, smbc_ctx := c, invoked := invoked w @ [Smbc_lseek]\<rparr>\<rparr>)"
  using assms smbfs_file_lseek_live [of fh p w d env offset whence rc e c] by simp

theorem smbfs_file_lseek_sets_pos_witness:
  "smbfs_file_lseek fake_env (Some open_handler) 100 0 (fake_world [(100, 0)]) =
     Inr \<lparr>ret = 100, out = (), handler = Some \<lparr>pos = 100, data = Some 0\<rparr>, gerror = None,
          world = \<lparr>errno = 0, smbc_ctx = [], heap = [Some \<lparr>handle = 3\<rparr>], invoked = [Smbc_lseek]\<rparr>\<rparr>
   \<and> smbfs_file_lseek fake_env (Some open_handler) (- 7) 0 (fake_world [(- 1, 22)]) =
     Inr \<lparr>ret = - 1, out = (), handler = Some \<lparr>pos = 10, data = Some 0\<rparr>,
          gerror = Some \<lparr>domain = 1, code = 22, message = ''Unknown error''\<rparr>,
          world = \<lparr>errno = 22, smbc_ctx = [], heap = [Some \<lparr>handle = 3\<rparr>], invoked = [Smbc_lseek]\<rparr>\<rparr>"
  using smbfs_file_lseek_sets_pos [OF fake_handler_data fake_deref, of fake_env 100 0 "[(100, 0)]" 100 0 "[]"]
    smbfs_file_lseek_sets_pos [OF fake_handler_data fake_deref, of fake_env "- 7" 0 "[(- 1, 22)]" "- 1" 22 "[]"]
  by (simp add: fake_smbc_lseek fake_env_sel) (simp add: open_handler_def fake_world_def)

text \<open>
  Claim C6. \<^verbatim>\<open>smbfs_file_open\<close> returns a pointer to a new cell that wraps the handle
  exactly when \<^verbatim>\<open>smbc_open\<close> returns a handle \<open>h \<ge> 0\<close>: the address was no live cell
  before, holds \<open>h\<close> after, and no error is stored. When \<open>h < 0\<close> the function
  returns \<^verbatim>\<open>NULL\<close>, allocates nothing, and stores an error whose code is the
  \<^verbatim>\<open>errno\<close> left by the primitive and whose message is \<^verbatim>\<open>smbfs_strerror\<close> of that
  code.
\<close>

theorem smbfs_file_open_state_iff_handle:
  assumes "smbc_open env (smbfs_make_url env (vfs_path_get_by_index env vpath (- 1)) True)
             flags mode 0 (smbc_ctx w) = (h, e, c)"
  shows "smbfs_file_open env vpath flags mode w =
          (if 0 \<le> h
           then \<lparr>ret = Some (length (heap w)), out = (), handler = None, gerror = None,
                 world = w\<lparr>errno := e, smbc_ctx := c, invoked := invoked w @ [Smbc_open],
                           heap := heap w @ [Some \<lparr>handle = h\<rparr>]\<rparr>\<rparr>
           else \<lparr>ret = None, out = (), handler = None,
                 gerror = Some \<lparr>domain = MC_ERROR env, code = e, message = smbfs_strerror env e\<rparr>,
                 world = w\<lparr>errno := e, smbc_ctx := c, invoked := invoked w @ [Smbc_open]\<rparr>\<rparr>)
       \<and> (ret (smbfs_file_open env vpath flags mode w) = None) = (h < 0)
       \<and> (gerror (smbfs_file_open env vpath flags mode w) = None) = (0 \<le> h)
       \<and> deref w (length (heap w)) = Inl Invalid_Pointer
       \<and> deref (w\<lparr>errno := e, smbc_ctx := c, invoked := invoked w @ [Smbc_open],
                   heap := heap w @ [Some \<lparr>handle = h\<rparr>]\<rparr>) (length (heap w)) = Inr \<lparr>handle = h\<rparr>"
  using smbfs_file_open_eq [OF assms] by (simp add: deref_def)

text \<open>
  An open that the client answers with the handle 7, and one that it refuses with
  \<^verbatim>\<open>ENOENT\<close> (2); the world had one cell, so the new state is at address 1.
\<close>

theorem smbfs_file_open_state_iff_handle_witness:
  "smbfs_file_open fake_env [''share'', ''file.txt''] 2 420 (fake_world [(7, 0)]) =
     \<lparr>ret = Some 1, out = (), handler = None, gerror = None,
      world = \<lparr>errno = 0, smbc_ctx = [], heap = [Some \<lparr>handle = 3\<rparr>, Some \<lparr>handle = 7\<rparr>],
               invoked = [Smbc_open]\<rparr>\<rparr>
   \<and> smbfs_file_open fake_env [''share'', ''file.txt''] 2 420 (fake_world [(- 1, 2)]) =
     \<lparr>ret = None, out = (), handler = None,
      gerror = Some \<lparr>domain = 1, code = 2, message = ''No such file or directory''\<rparr>,
      world = \<lparr>errno = 2, smbc_ctx = [], heap = [Some \<lparr>handle = 3\<rparr>], invoked = [Smbc_open]\<rparr>\<rparr>"
  using
    smbfs_file_open_state_iff_handle [of fake_env "[''share'', ''file.txt'']" 2 420
      "fake_world [(7, 0)]" 7 0 "[]"]
    smbfs_file_open_state_iff_handle [of fake_env "[''share'', ''file.txt'']" 2 420
      "fake_world [(- 1, 2)]" "- 1" 2 "[]"]
  by (simp add: fake_smbc_open fake_env_sel) (simp add: fake_world_def)




text \<open>
  Claim C8, at a \<^verbatim>\<open>NULL\<close> handler: the message of the contract error of
  \<^verbatim>\<open>smbfs_file_write\<close> and that of \<^verbatim>\<open>smbfs_file_lseek\<close> are the message of
  \<^verbatim>\<open>smbfs_file_stat\<close>, which names fstat; the three functions do not have a message
  each.
\<close>

theorem write_and_lseek_contract_message_names_fstat:
  "smbfs_file_write fake_env None ''hello'' 5 (fake_world []) =
     Inr \<lparr>ret = - 1, out = (), handler = None,
          gerror = Some \<lparr>domain = 1, code = - 1,
            message = ''smbfs: No file handler data present for fstat file''\<rparr>,
          world = fake_world []\<rparr>
   \<and> smbfs_file_lseek fake_env None 0 0 (fake_world []) =
     Inr \<lparr>ret = - 1, out = (), handler = None,
          gerror = Some \<lparr>domain = 1, code = - 1,
            message = ''smbfs: No file handler data present for fstat file''\<rparr>,
          world = fake_world []\<rparr>
   \<and> smbfs_file_stat fake_env None 7 (fake_world []) =
     Inr \<lparr>ret = - 1, out = 7, handler = None,
          gerror = Some \<lparr>domain = 1, code = - 1,
            message = ''smbfs: No file handler data present for fstat file''\<rparr>,
          world = fake_world []\<rparr>"
  by (simp add: smbfs_file_write_no_data smbfs_file_lseek_no_data smbfs_file_stat_no_data
      no_handler_data_def fake_env_sel)

text \<open>
  Claim C9. For a handle with backend state, when \<^verbatim>\<open>smbc_read\<close> returns \<open>rc < 0\<close>,
  \<^verbatim>\<open>smbfs_file_read\<close> stores an error whose code is the \<^verbatim>\<open>errno\<close> that the
  primitive left, and the handler, \<^verbatim>\<open>pos\<close> included, is as it was.
\<close>

theorem smbfs_file_read_failure:
  assumes "data fh = Some p" and "deref w p = Inr d"
    and "smbc_read env (handle d) buffer count 0 (smbc_ctx w) = ((rc, b), e, c)"
    and "rc < 0"
  shows "smbfs_file_read env (Some fh) buffer count w =
           Inr \<lparr>ret = rc, out = b, handler = Some fh,
                gerror = Some \<lparr>domain = MC_ERROR env, code = e, message = smbfs_strerror env e\<rparr>,
                world = w\<lparr>errno := e, smbc_ctx := c, invoked := invoked w @ [Smbc_read]\<rparr>\<rparr>"
  using assms smbfs_file_read_live [of fh p w d env buffer count rc b e c] by simp

theorem smbfs_file_read_failure_witness:
  "smbfs_file_read fake_env (Some open_handler) ''abc'' 4 (fake_world [(- 1, 2)]) =
     Inr \<lparr>ret = - 1, out = ''abc'', handler = Some \<lparr>pos = 10, data = Some 0\<rparr>,
          gerror = Some \<lparr>domain = 1, code = 2, message = ''No such file or directory''\<rparr>,
          world = \<lparr>errno = 2, smbc_ctx = [], heap = [Some \<lparr>handle = 3\<rparr>], invoked = [Smbc_read]\<rparr>\<rparr>"
  using smbfs_file_read_failure [OF fake_handler_data fake_deref, of fake_env "''abc''" 4 "[(- 1, 2)]" "- 1" "''abc''" 2 "[]"]
  by (simp add: fake_smbc_read fake_env_sel) (simp add: open_handler_def fake_world_def)




end
